theory Spec2Isabelle
  imports Complex_Main "HOL-Library.Log_Nat" "HOL-Library.Word"
begin

section \<open>The arithmetic of Python floats (IEEE 754 binary64)\<close>

text \<open>
  The geometry classes of \<^verbatim>\<open>benchmarks/cross_language_overhead.py\<close> and of
  \<^verbatim>\<open>micropdf-py/benchmarks/benchmark.py\<close> store every coordinate as a Python
  \<^verbatim>\<open>float\<close>, an IEEE 754 binary64 number. A finite binary64 number is a rational;
  the two infinities and NaN are separate values. The two zeros are identified: the
  modelled code never divides by a zero without raising and never inspects the sign
  of a zero, and \<^verbatim>\<open>0.0 == -0.0\<close> holds in Python.
\<close>

datatype float64 = Finite rat | PosInf | NegInf | NaN

text \<open>Round to nearest integer, ties to the even one.\<close>

definition round_half_even :: "rat \<Rightarrow> int" where
  "round_half_even q =
     (let n = \<lfloor>q\<rfloor>; r = q - of_int n
      in if r < 1 / 2 then n
         else if 1 / 2 < r then n + 1
         else if even n then n else n + 1)"

text \<open>
  For \<open>q > 0\<close>, the exponent \<open>k\<close> with \<open>2 powi k \<le> q < 2 powi (k + 1)\<close>, found
  from the bit lengths of numerator and denominator.
\<close>

definition ilog2 :: "rat \<Rightarrow> int" where
  "ilog2 q =
     (let (n, d) = quotient_of q; k = bitlen n - bitlen d
      in if 2 powi k \<le> q then k else k - 1)"

text \<open>
  Rounding of an exact result to binary64, round-to-nearest, ties-to-even: 53 bits of
  precision, the exponent of the leading bit at least \<open>-1022\<close> (below that the
  spacing stays \<open>2 powi (-1074)\<close>, the subnormal numbers), and a result that rounds
  to \<open>2 powi 1024\<close> or more overflows to an infinity. Python's float \<^verbatim>\<open>+\<close>,
  \<^verbatim>\<open>-\<close> and \<^verbatim>\<open>*\<close> do not raise on overflow.
\<close>

definition round64 :: "rat \<Rightarrow> float64" where
  "round64 q =
     (if q = 0 then Finite 0
      else
        let e = max (ilog2 \<bar>q\<bar>) (- 1022);
            u = 2 powi (e - 52);
            r = of_int (round_half_even (\<bar>q\<bar> / u)) * u
        in if 2 powi 1024 \<le> r then (if 0 < q then PosInf else NegInf)
           else Finite (sgn q * r))"

instantiation float64 :: "{zero, one, plus, minus, uminus, times, inverse, abs, ord}"
begin

definition zero_float64 :: float64 where
  "zero_float64 = Finite 0"

definition one_float64 :: float64 where
  "one_float64 = Finite 1"

fun uminus_float64 :: "float64 \<Rightarrow> float64" where
  "uminus_float64 (Finite q) = Finite (- q)"
| "uminus_float64 PosInf = NegInf"
| "uminus_float64 NegInf = PosInf"
| "uminus_float64 NaN = NaN"

fun abs_float64 :: "float64 \<Rightarrow> float64" where
  "abs_float64 (Finite q) = Finite \<bar>q\<bar>"
| "abs_float64 PosInf = PosInf"
| "abs_float64 NegInf = PosInf"
| "abs_float64 NaN = NaN"

fun plus_float64 :: "float64 \<Rightarrow> float64 \<Rightarrow> float64" where
  "plus_float64 NaN _ = NaN"
| "plus_float64 _ NaN = NaN"
| "plus_float64 PosInf NegInf = NaN"
| "plus_float64 NegInf PosInf = NaN"
| "plus_float64 PosInf _ = PosInf"
| "plus_float64 _ PosInf = PosInf"
| "plus_float64 NegInf _ = NegInf"
| "plus_float64 _ NegInf = NegInf"
| "plus_float64 (Finite p) (Finite q) = round64 (p + q)"

definition minus_float64 :: "float64 \<Rightarrow> float64 \<Rightarrow> float64" where
  "minus_float64 u v = u + (- v)"

text \<open>The sign of a product with an infinite factor; \<open>inf * 0\<close> is NaN.\<close>

fun signed_inf :: "rat \<Rightarrow> float64" where
  "signed_inf s = (if s = 0 then NaN else if 0 < s then PosInf else NegInf)"

fun times_float64 :: "float64 \<Rightarrow> float64 \<Rightarrow> float64" where
  "times_float64 NaN _ = NaN"
| "times_float64 _ NaN = NaN"
| "times_float64 PosInf PosInf = PosInf"
| "times_float64 PosInf NegInf = NegInf"
| "times_float64 NegInf PosInf = NegInf"
| "times_float64 NegInf NegInf = PosInf"
| "times_float64 PosInf (Finite q) = signed_inf q"
| "times_float64 NegInf (Finite q) = signed_inf (- q)"
| "times_float64 (Finite p) PosInf = signed_inf p"
| "times_float64 (Finite p) NegInf = signed_inf (- p)"
| "times_float64 (Finite p) (Finite q) = round64 (p * q)"

text \<open>
  Division. Python raises \<^verbatim>\<open>ZeroDivisionError\<close> on a zero divisor: that is
  modelled where the source divides (\<open>py_truediv\<close> below), and the value given here
  for a zero divisor is never used.
\<close>

fun divide_float64 :: "float64 \<Rightarrow> float64 \<Rightarrow> float64" where
  "divide_float64 NaN _ = NaN"
| "divide_float64 _ NaN = NaN"
| "divide_float64 (Finite p) (Finite q) = (if q = 0 then NaN else round64 (p / q))"
| "divide_float64 (Finite p) PosInf = Finite 0"
| "divide_float64 (Finite p) NegInf = Finite 0"
| "divide_float64 PosInf (Finite q) = (if 0 \<le> q then PosInf else NegInf)"
| "divide_float64 NegInf (Finite q) = (if 0 \<le> q then NegInf else PosInf)"
| "divide_float64 _ _ = NaN"

definition inverse_float64 :: "float64 \<Rightarrow> float64" where
  "inverse_float64 v = Finite 1 div v"

text \<open>Comparisons: every comparison with NaN is false.\<close>

fun less_float64 :: "float64 \<Rightarrow> float64 \<Rightarrow> bool" where
  "less_float64 NaN _ = False"
| "less_float64 _ NaN = False"
| "less_float64 (Finite p) (Finite q) = (p < q)"
| "less_float64 _ NegInf = False"
| "less_float64 NegInf _ = True"
| "less_float64 PosInf _ = False"
| "less_float64 _ PosInf = True"

fun less_eq_float64 :: "float64 \<Rightarrow> float64 \<Rightarrow> bool" where
  "less_eq_float64 NaN _ = False"
| "less_eq_float64 _ NaN = False"
| "less_eq_float64 (Finite p) (Finite q) = (p \<le> q)"
| "less_eq_float64 NegInf _ = True"
| "less_eq_float64 _ PosInf = True"
| "less_eq_float64 _ NegInf = False"
| "less_eq_float64 PosInf _ = False"

instance ..

end

instance float64 :: power ..

section \<open>Python builtins used by the geometry classes\<close>

datatype py_error = ZeroDivisionError | ValueError

text \<open>
  \<^verbatim>\<open>min(v, *vs)\<close> and \<^verbatim>\<open>max(v, *vs)\<close>: CPython keeps the first argument and replaces
  it by a later item only when \<^verbatim>\<open>item < current\<close> (for \<^verbatim>\<open>min\<close>) or
  \<^verbatim>\<open>item > current\<close> (for \<^verbatim>\<open>max\<close>) holds.
\<close>

definition py_min :: "'a::ord \<Rightarrow> 'a list \<Rightarrow> 'a" where
  "py_min v vs = foldl (\<lambda>cur item. if item < cur then item else cur) v vs"

definition py_max :: "'a::ord \<Rightarrow> 'a list \<Rightarrow> 'a" where
  "py_max v vs = foldl (\<lambda>cur item. if cur < item then item else cur) v vs"

text \<open>\<^verbatim>\<open>min(xs)\<close> and \<^verbatim>\<open>max(xs)\<close> of a list raise \<^verbatim>\<open>ValueError\<close> on the empty list.\<close>

definition py_min_list :: "'a::ord list \<Rightarrow> py_error + 'a" where
  "py_min_list xs = (case xs of [] \<Rightarrow> Inl ValueError | v # vs \<Rightarrow> Inr (py_min v vs))"

definition py_max_list :: "'a::ord list \<Rightarrow> py_error + 'a" where
  "py_max_list xs = (case xs of [] \<Rightarrow> Inl ValueError | v # vs \<Rightarrow> Inr (py_max v vs))"

text \<open>Float division \<^verbatim>\<open>u / v\<close> raises \<^verbatim>\<open>ZeroDivisionError\<close> when \<^verbatim>\<open>v == 0\<close>.\<close>

definition py_truediv :: "'a::{zero, inverse} \<Rightarrow> 'a \<Rightarrow> py_error + 'a" where
  "py_truediv u v = (if v = 0 then Inl ZeroDivisionError else Inr (u / v))"

text \<open>
  The float literal \<^verbatim>\<open>1e-14\<close> is the binary64 number nearest to \<open>1 / 10 ^ 14\<close>.
  Since \<open>10 ^ 14\<close> is a binary64 number and float division rounds to nearest, it
  is the quotient of \<open>1\<close> by \<open>10 ^ 14\<close>, written here with the operations of the
  number type, so that it is \<open>1 / 10 ^ 14\<close> in exact arithmetic too.
\<close>

definition ten :: "'a::{one, plus}" where
  "ten = 1 + 1 + 1 + 1 + 1 + 1 + 1 + 1 + 1 + 1"

definition lit_1e_14 :: "'a::{power, plus, inverse}" where
  "lit_1e_14 = 1 / ten ^ 14"

section \<open>Geometry types\<close>

text \<open>
  The classes are parametrised by the number type \<open>'a\<close>: \<^typ>\<open>float64\<close> is what the
  code computes with, \<^typ>\<open>real\<close> is the same code in exact arithmetic. The
  constructors apply \<^verbatim>\<open>float(..)\<close> to each argument, which leaves a float unchanged.
  The fields \<^verbatim>\<open>x\<close>, \<^verbatim>\<open>y\<close> of \<^verbatim>\<open>Point\<close> are \<open>px\<close>, \<open>py\<close> and the fields
  \<^verbatim>\<open>a\<close> .. \<^verbatim>\<open>f\<close> of \<^verbatim>\<open>Matrix\<close> are \<open>ma\<close> .. \<open>mf\<close>.
\<close>

record 'a Point =
  px :: 'a
  py :: 'a

record 'a Rect =
  x0 :: 'a
  y0 :: 'a
  x1 :: 'a
  y1 :: 'a

record 'a Matrix =
  ma :: 'a
  mb :: 'a
  mc :: 'a
  md :: 'a
  me :: 'a
  mf :: 'a

record 'a Quad =
  ul :: "'a Point"
  ur :: "'a Point"
  ll :: "'a Point"
  lr :: "'a Point"

subsection \<open>Point\<close>


subsection \<open>Matrix\<close>


definition Matrix_scale :: "'a::zero \<Rightarrow> 'a \<Rightarrow> 'a Matrix" where
  "Matrix_scale sx sy = \<lparr>ma = sx, mb = 0, mc = 0, md = sy, me = 0, mf = 0\<rparr>"


text \<open>\<^verbatim>\<open>Matrix.concat\<close> (the same in both files).\<close>

definition Matrix_concat :: "'a::{plus, times} Matrix \<Rightarrow> 'a Matrix \<Rightarrow> 'a Matrix" where
  "Matrix_concat self other =
     \<lparr>ma = ma self * ma other + mb self * mc other,
      mb = ma self * mb other + mb self * md other,
      mc = mc self * ma other + md self * mc other,
      md = mc self * mb other + md self * md other,
      me = me self * ma other + mf self * mc other + me other,
      mf = me self * mb other + mf self * md other + mf other\<rparr>"

text \<open>The determinant as \<^verbatim>\<open>Matrix.invert\<close> computes it.\<close>

definition Matrix_det :: "'a::{minus, times} Matrix \<Rightarrow> 'a" where
  "Matrix_det self = ma self * md self - mb self * mc self"

text \<open>
  \<^verbatim>\<open>Matrix.invert\<close> of \<^verbatim>\<open>cross_language_overhead.py\<close>: \<open>Inr None\<close> is the returned
  \<^verbatim>\<open>None\<close>, \<open>Inl\<close> an exception.
\<close>

definition Matrix_invert ::
  "'a::{zero, power, plus, minus, uminus, inverse, abs, ord} Matrix
     \<Rightarrow> py_error + 'a Matrix option" where
  "Matrix_invert self =
     (let det = Matrix_det self in
      if \<bar>det\<bar> < lit_1e_14 then Inr None
      else
        case py_truediv 1 det of
          Inl err \<Rightarrow> Inl err
        | Inr inv_det \<Rightarrow>
            Inr (Some
              \<lparr>ma = md self * inv_det,
               mb = - mb self * inv_det,
               mc = - mc self * inv_det,
               md = ma self * inv_det,
               me = (mc self * mf self - md self * me self) * inv_det,
               mf = (mb self * me self - ma self * mf self) * inv_det\<rparr>))"

subsection \<open>Rect\<close>

text \<open>\<^verbatim>\<open>Rect.width\<close>, \<^verbatim>\<open>Rect.height\<close> and \<^verbatim>\<open>Rect.intersect\<close> of \<^verbatim>\<open>benchmark.py\<close>.\<close>

definition Rect_width :: "'a::{minus, abs} Rect \<Rightarrow> 'a" where
  "Rect_width self = \<bar>x1 self - x0 self\<bar>"

definition Rect_height :: "'a::{minus, abs} Rect \<Rightarrow> 'a" where
  "Rect_height self = \<bar>y1 self - y0 self\<bar>"

definition Rect_intersect :: "'a::ord Rect \<Rightarrow> 'a Rect \<Rightarrow> 'a Rect" where
  "Rect_intersect self other =
     \<lparr>x0 = py_max (x0 self) [x0 other],
      y0 = py_max (y0 self) [y0 other],
      x1 = py_min (x1 self) [x1 other],
      y1 = py_min (y1 self) [y1 other]\<rparr>"



definition bounds_of :: "'a::ord list \<Rightarrow> 'a list \<Rightarrow> py_error + 'a Rect" where
  "bounds_of xs ys =
     (case py_min_list xs of Inl err \<Rightarrow> Inl err | Inr bx0 \<Rightarrow>
       (case py_min_list ys of Inl err \<Rightarrow> Inl err | Inr by0 \<Rightarrow>
         (case py_max_list xs of Inl err \<Rightarrow> Inl err | Inr bx1 \<Rightarrow>
           (case py_max_list ys of Inl err \<Rightarrow> Inl err | Inr by1 \<Rightarrow>
              Inr \<lparr>x0 = bx0, y0 = by0, x1 = bx1, y1 = by1\<rparr>))))"


subsection \<open>Quad\<close>

text \<open>\<^verbatim>\<open>Quad.from_rect\<close> and \<^verbatim>\<open>Quad.to_rect\<close> of \<^verbatim>\<open>benchmark.py\<close>.\<close>

definition Quad_from_rect :: "'a Rect \<Rightarrow> 'a Quad" where
  "Quad_from_rect r =
     \<lparr>ul = \<lparr>px = x0 r, py = y0 r\<rparr>,
      ur = \<lparr>px = x1 r, py = y0 r\<rparr>,
      ll = \<lparr>px = x0 r, py = y1 r\<rparr>,
      lr = \<lparr>px = x1 r, py = y1 r\<rparr>\<rparr>"

definition Quad_to_rect :: "'a::ord Quad \<Rightarrow> py_error + 'a Rect" where
  "Quad_to_rect self =
     (let xs = [px (ul self), px (ur self), px (ll self), px (lr self)];
          ys = [py (ul self), py (ur self), py (ll self), py (lr self)]
      in bounds_of xs ys)"

text \<open>NaN is the one float that no comparison orders.\<close>

definition is_nan :: "float64 \<Rightarrow> bool" where
  "is_nan v = (v = NaN)"

text \<open>A rectangle one of whose coordinates is NaN.\<close>

definition Rect_has_nan :: "float64 Rect \<Rightarrow> bool" where
  "Rect_has_nan r = (is_nan (x0 r) \<or> is_nan (y0 r) \<or> is_nan (x1 r) \<or> is_nan (y1 r))"

section \<open>Buffer\<close>

text \<open>
  \<^verbatim>\<open>Buffer\<close> of \<^verbatim>\<open>cross_language_overhead.py\<close>: one slot \<^verbatim>\<open>_data\<close>, a
  \<^verbatim>\<open>bytearray\<close>. \<^verbatim>\<open>bytearray(n)\<close> is \<open>n\<close> zero bytes and raises
  \<^verbatim>\<open>ValueError\<close> for a negative \<open>n\<close>. Exhaustion of memory is not modelled.
\<close>

type_synonym byte = "8 word"

record Buffer =
  data :: "byte list"

definition bytearray :: "int \<Rightarrow> py_error + byte list" where
  "bytearray n = (if n < 0 then Inl ValueError else Inr (replicate (nat n) 0))"

definition Buffer_init :: "int \<Rightarrow> py_error + Buffer" where
  "Buffer_init capacity =
     (case bytearray capacity of Inl err \<Rightarrow> Inl err | Inr bs \<Rightarrow> Inr \<lparr>data = bs\<rparr>)"

text \<open>
  The slice assignment \<^verbatim>\<open>xs[i:j] = ys\<close> for \<open>i \<le> j \<le> length xs\<close>;
  \<^verbatim>\<open>xs[:] = ys\<close> is the slice from \<open>0\<close> to \<open>length xs\<close>.
\<close>

definition slice_assign :: "'a list \<Rightarrow> nat \<Rightarrow> nat \<Rightarrow> 'a list \<Rightarrow> 'a list" where
  "slice_assign xs i j ys = take i xs @ ys @ drop j xs"

definition Buffer_from_slice :: "byte list \<Rightarrow> py_error + Buffer" where
  "Buffer_from_slice d =
     (case Buffer_init (int (length d)) of
        Inl err \<Rightarrow> Inl err
      | Inr buf \<Rightarrow> Inr (buf\<lparr>data := slice_assign (data buf) 0 (length (data buf)) d\<rparr>))"


section \<open>Merging documents\<close>

text \<open>
  \<^verbatim>\<open>merge_pdfs\<close> is imported by \<^verbatim>\<open>tests/test_enhanced.py\<close> from the package
  \<^verbatim>\<open>micropdf\<close>, whose source is not among the files; only its tests are.
\<close>

datatype merge_error = InvalidArgument | DocumentError

datatype io_event = OpenedFile string | WroteFile string

text \<open>
  Modelled from the spec: the native side that \<^verbatim>\<open>merge_pdfs\<close> acts on, which is
  missing from the sources. It holds the live contexts and document handles, the
  files on disk (a path to its page sequence, and whether a path can be written),
  and the I/O done so far.
\<close>

record native =
  live_contexts :: nat
  live_documents :: nat
  files :: "string \<Rightarrow> string list option"
  writable :: "string \<Rightarrow> bool"
  io_trace :: "io_event list"

text \<open>
  Modelled from the spec: the opening of the inputs by \<^verbatim>\<open>merge_pdfs\<close>, which is
  missing from the sources. Each input path is opened in order as a context-owned
  document; the page sequences are concatenated in input order; when an input
  cannot be opened every document opened so far is released.
\<close>

fun open_inputs :: "string list \<Rightarrow> nat \<Rightarrow> native \<Rightarrow> (merge_error + string list) \<times> native" where
  "open_inputs [] opened s = (Inr [], s)"
| "open_inputs (path # rest) opened s =
     (let s1 = s\<lparr>io_trace := io_trace s @ [OpenedFile path]\<rparr>
      in case files s1 path of
           None \<Rightarrow> (Inl DocumentError, s1\<lparr>live_documents := live_documents s1 - opened\<rparr>)
         | Some pages \<Rightarrow>
             (case open_inputs rest (Suc opened) (s1\<lparr>live_documents := Suc (live_documents s1)\<rparr>) of
                (Inl err, s2) \<Rightarrow> (Inl err, s2)
              | (Inr later, s2) \<Rightarrow> (Inr (pages @ later), s2)))"

text \<open>
  Modelled from the spec: \<^verbatim>\<open>merge_pdfs(input_paths, output_path, ctx=None)\<close>, which is
  missing from the sources. It fails with \<open>InvalidArgument\<close> when \<open>input_paths\<close> is
  empty or \<open>output_path\<close> is empty, validated before any I/O or native resource
  allocation; when \<open>ctx\<close> is omitted a private context is created for the call and
  destroyed on every exit path; it fails with \<open>DocumentError\<close> when an input cannot
  be opened or the output cannot be written, after releasing what it opened.
\<close>

definition merge_pdfs ::
  "string list \<Rightarrow> string \<Rightarrow> nat option \<Rightarrow> native \<Rightarrow> (merge_error + unit) \<times> native" where
  "merge_pdfs input_paths output_path ctx s =
     (if input_paths = [] then (Inl InvalidArgument, s)
      else if output_path = [] then (Inl InvalidArgument, s)
      else
        let private = (ctx = None);
            s1 = (if private then s\<lparr>live_contexts := Suc (live_contexts s)\<rparr> else s);
            destroy = (\<lambda>t. if private then t\<lparr>live_contexts := live_contexts t - 1\<rparr> else t)
        in case open_inputs input_paths 0 s1 of
             (Inl err, s2) \<Rightarrow> (Inl err, destroy s2)
           | (Inr pages, s2) \<Rightarrow>
               let s3 = s2\<lparr>io_trace := io_trace s2 @ [WroteFile output_path]\<rparr>;
                   s4 = s3\<lparr>live_documents := live_documents s3 - length input_paths\<rparr>
               in if writable s3 output_path
                  then (Inr (), destroy (s4\<lparr>files := (files s4)(output_path \<mapsto> pages)\<rparr>))
                  else (Inl DocumentError, destroy s4))"

section \<open>Rounding to binary64: evaluation lemmas\<close>

text \<open>
  \<open>ilog2\<close> finds the binade of a positive rational; hence \<open>round64\<close> can be
  evaluated at a given number once its binade is known, and every number
  \<open>m * 2 powi k\<close> with a 53-bit \<open>m\<close> in the range of binary64 is left unchanged.
\<close>

lemma powi_less_imp: "(2::rat) powi a < 2 powi b \<Longrightarrow> a < b"
proof (rule ccontr)
  assume h: "(2::rat) powi a < 2 powi b" and "\<not> a < b"
  then have "b \<le> a" by simp
  then have "(2::rat) powi b \<le> 2 powi a" by (intro power_int_increasing) auto
  with h show False by simp
qed

lemma ilog2_unique_aux:
  assumes "(2::rat) powi e \<le> q" "q < 2 powi (e + 1)" "2 powi e' \<le> q" "q < 2 powi (e' + 1)"
  shows "e = e'"
proof -
  have "(2::rat) powi e < 2 powi (e' + 1)" using assms by linarith
  then have a: "e < e' + 1" by (rule powi_less_imp)
  have "(2::rat) powi e' < 2 powi (e + 1)" using assms by linarith
  then have "e' < e + 1" by (rule powi_less_imp)
  with a show ?thesis by simp
qed

lemma of_int_pow_bitlen:
  assumes "0 < n"
  shows "(2::rat) powi (bitlen n - 1) \<le> of_int n" "(of_int n :: rat) < 2 powi (bitlen n)"
proof -
  from bitlen_bounds[OF assms] have lo: "2 ^ nat (bitlen n - 1) \<le> n" and hi: "n < 2 ^ nat (bitlen n)" by auto
  have b1: "1 \<le> bitlen n" using assms bitlen_eq_zero_iff[of n] bitlen_nonneg[of n] by linarith
  have "(of_int (2 ^ nat (bitlen n - 1)) :: rat) \<le> of_int n" using lo by (simp only: of_int_le_iff)
  then show "(2::rat) powi (bitlen n - 1) \<le> of_int n" using b1 by (simp add: power_int_def)
  have "(of_int n :: rat) < of_int (2 ^ nat (bitlen n))" using hi by (simp only: of_int_less_iff)
  then show "(of_int n :: rat) < 2 powi (bitlen n)" using b1 by (simp add: power_int_def)
qed

lemma ilog2_bounds:
  assumes "0 < q"
  shows "2 powi (ilog2 q) \<le> q \<and> q < 2 powi (ilog2 q + 1)"
proof -
  obtain n d where qd: "quotient_of q = (n, d)" by (cases "quotient_of q")
  have d: "0 < d" using qd quotient_of_denom_pos by blast
  have q: "q = of_int n / of_int d" using qd quotient_of_div by blast
  have n: "0 < n" using assms d q by (simp add: zero_less_divide_iff)
  define k where "k = bitlen n - bitlen d"
  note bn = of_int_pow_bitlen[OF n] and bd = of_int_pow_bitlen[OF d]
  have dpos: "(0::rat) < of_int d" using d by simp
  have "q < 2 powi (bitlen n) / 2 powi (bitlen d - 1)"
    unfolding q using bn bd dpos n by (intro frac_less) auto
  also have "\<dots> = 2 powi (k + 1)"
    by (simp add: k_def power_int_diff power_int_add)
  finally have hi: "q < 2 powi (k + 1)" .
  have "2 powi (bitlen n - 1) / 2 powi (bitlen d) < q"
    unfolding q using bn bd dpos n by (intro frac_less2) auto
  moreover have "(2::rat) powi (bitlen n - 1) / 2 powi (bitlen d) = 2 powi (k - 1)"
    by (simp add: k_def power_int_diff power_int_add)
  ultimately have lo: "2 powi (k - 1) < q" by simp
  have il: "ilog2 q = (if 2 powi k \<le> q then k else k - 1)"
    by (simp add: ilog2_def qd k_def Let_def)
  show ?thesis using lo hi by (auto simp: il)
qed

lemma ilog2_unique:
  assumes "(2::rat) powi e \<le> q" "q < 2 powi (e + 1)"
  shows "ilog2 q = e"
proof -
  have "0 < q" using assms(1) zero_less_power_int[of "2::rat" e] by linarith
  from ilog2_bounds[OF this] assms show ?thesis
    by (intro ilog2_unique_aux[of _ q]) auto
qed

lemma round_half_even_of_int: "round_half_even (of_int n) = n"
  by (simp add: round_half_even_def)

lemma round64_finite:
  assumes "2 powi e \<le> \<bar>q\<bar>" "\<bar>q\<bar> < 2 powi (e + 1)" "- 1022 \<le> e"
    and "r = of_int (round_half_even (\<bar>q\<bar> / 2 powi (e - 52))) * 2 powi (e - 52)"
    and "r < 2 powi 1024"
  shows "round64 q = Finite (sgn q * r)"
proof -
  have "0 < \<bar>q\<bar>" using assms(1) zero_less_power_int[of "2::rat" e] by linarith
  then have q0: "q \<noteq> 0" by simp
  have "ilog2 \<bar>q\<bar> = e" using assms(1,2) by (rule ilog2_unique)
  then show ?thesis using q0 assms(3,4,5) by (simp add: round64_def Let_def max_def)
qed

lemma round64_overflow:
  assumes "0 < q" "2 powi e \<le> q" "q < 2 powi (e + 1)" "- 1022 \<le> e"
    and "2 powi 1024 \<le> of_int (round_half_even (q / 2 powi (e - 52))) * (2::rat) powi (e - 52)"
  shows "round64 q = PosInf"
proof -
  have "ilog2 \<bar>q\<bar> = e" using assms(1,2,3) by (intro ilog2_unique) auto
  then show ?thesis using assms by (simp add: round64_def Let_def max_def)
qed

lemma round64_representable:
  assumes m: "\<bar>m\<bar> < 2 ^ 53" and k: "- 1074 \<le> k"
    and b: "\<bar>of_int m * 2 powi k\<bar> < (2::rat) powi 1024"
  shows "round64 (of_int m * 2 powi k) = Finite (of_int m * 2 powi k)"
proof (cases "m = 0")
  case True
  then show ?thesis by (simp add: round64_def)
next
  case False
  define q :: rat where "q = of_int m * 2 powi k"
  have q0: "q \<noteq> 0" using False by (simp add: q_def)
  have aq: "\<bar>q\<bar> = of_int \<bar>m\<bar> * 2 powi k" by (simp add: q_def abs_mult)
  have mpos: "0 < (of_int \<bar>m\<bar> :: rat)" using False by simp
  define c where "c = ilog2 (of_int \<bar>m\<bar>)"
  from ilog2_bounds[OF mpos]
  have c1: "2 powi c \<le> (of_int \<bar>m\<bar> :: rat)" and c2: "(of_int \<bar>m\<bar> :: rat) < 2 powi (c + 1)"
    by (simp_all add: c_def)
  have "(of_int \<bar>m\<bar> :: rat) < of_int (2 ^ 53)" using m by (simp only: of_int_less_iff)
  then have "(2::rat) powi c < 2 powi 53" using c1 by simp
  then have c52: "c \<le> 52" using powi_less_imp[of c 53] by simp
  have e1: "2 powi (c + k) \<le> \<bar>q\<bar>"
    using c1 by (simp add: aq power_int_add)
  have e2: "\<bar>q\<bar> < 2 powi (c + k + 1)"
  proof -
    have "of_int \<bar>m\<bar> * 2 powi k < 2 powi (c + 1) * (2::rat) powi k"
      using c2 by (intro mult_strict_right_mono) auto
    also have "\<dots> = 2 powi (c + k + 1)" by (simp add: power_int_add)
    finally show ?thesis by (simp add: aq)
  qed
  have il: "ilog2 \<bar>q\<bar> = c + k" using e1 e2 by (rule ilog2_unique)
  define e where "e = max (c + k) (- 1022)"
  have sh: "0 \<le> k - e + 52" using c52 k by (simp add: e_def max_def)
  have "\<bar>q\<bar> / 2 powi (e - 52) = of_int \<bar>m\<bar> * 2 powi (k - (e - 52))"
    by (simp add: aq power_int_diff)
  also have "\<dots> = of_int \<bar>m\<bar> * 2 ^ nat (k - e + 52)"
    using sh by (simp add: power_int_def algebra_simps)
  also have "\<dots> = of_int (\<bar>m\<bar> * 2 ^ nat (k - e + 52))" by simp
  finally have "round_half_even (\<bar>q\<bar> / 2 powi (e - 52)) = \<bar>m\<bar> * 2 ^ nat (k - e + 52)"
    by (simp only: round_half_even_of_int)
  then have "of_int (round_half_even (\<bar>q\<bar> / 2 powi (e - 52))) * (2::rat) powi (e - 52)
      = of_int \<bar>m\<bar> * 2 powi (k - e + 52) * 2 powi (e - 52)"
    using sh by (simp add: power_int_def)
  also have "\<dots> = \<bar>q\<bar>" by (simp add: aq mult.assoc flip: power_int_add)
  finally have r: "of_int (round_half_even (\<bar>q\<bar> / 2 powi (e - 52))) * (2::rat) powi (e - 52) = \<bar>q\<bar>" .
  have b': "\<not> 2 powi 1024 \<le> \<bar>q\<bar>" using b by (simp add: q_def)
  have "sgn q * \<bar>q\<bar> = q" by (simp add: sgn_mult_abs)
  then have "round64 q = Finite q"
    using q0 b' r by (simp add: round64_def Let_def il e_def[symmetric])
  then show ?thesis by (simp add: q_def)
qed

lemma round64_of_int: "\<bar>n\<bar> < 2 ^ 53 \<Longrightarrow> round64 (of_int n) = Finite (of_int n)"
proof -
  assume a: "\<bar>n\<bar> < 2 ^ 53"
  have "(of_int \<bar>n\<bar> :: rat) < of_int (2 ^ 53)" using a by (simp only: of_int_less_iff)
  moreover have "(2::rat) ^ 53 < 2 powi 1024" by simp
  ultimately have "\<bar>of_int n * 2 powi 0\<bar> < (2::rat) powi 1024" by simp
  from round64_representable[OF a _ this] show ?thesis by simp
qed

lemma floor_rat_numeral:
  "\<lfloor>(numeral a :: rat) / numeral b\<rfloor> = numeral a div numeral b"
  using floor_divide_of_int_eq[of "numeral a" "numeral b", where ?'a = rat] by simp

lemma round64_numeral:
  "numeral k < (2 ^ 53 :: int) \<Longrightarrow> round64 (numeral k) = Finite (numeral k)"
  using round64_of_int[of "numeral k"] by simp

lemma round64_neg_numeral:
  "numeral k < (2 ^ 53 :: int) \<Longrightarrow> round64 (- numeral k) = Finite (- numeral k)"
  using round64_of_int[of "- numeral k"] by simp

lemma round64_one: "round64 1 = Finite 1"
  using round64_of_int[of 1] by simp

lemma round64_zero: "round64 0 = Finite 0"
  by (simp add: round64_def)

lemma round64_neg_one: "round64 (- 1) = Finite (- 1)"
  using round64_of_int[of "- 1"] by simp

lemmas float64_eval = zero_float64_def one_float64_def minus_float64_def
  round64_numeral round64_neg_numeral round64_one round64_neg_one round64_zero

lemma ten_float64: "(ten :: float64) = Finite 10"
  by (simp add: ten_def float64_eval)

lemma ten_pow_14: "(ten :: float64) ^ 14 = Finite 100000000000000"
  by (simp add: ten_float64 eval_nat_numeral float64_eval)

lemma round64_1e_14: "round64 (1 / 100000000000000) = Finite (6338253001141147 / 2 ^ 99)"
  using round64_finite[of "- 47" "1 / 100000000000000" "6338253001141147 / 2 ^ 99"]
  by (simp add: round_half_even_def Let_def power_int_minus floor_rat_numeral)

lemma lit_1e_14_float64: "(lit_1e_14 :: float64) = Finite (6338253001141147 / 2 ^ 99)"
  by (simp add: lit_1e_14_def ten_pow_14 one_float64_def round64_1e_14)


lemma round64_big: "round64 (2 ^ 600 * 2 ^ 600) = PosInf"
  using round64_overflow[of "2 ^ 600 * 2 ^ 600" 1200]
  by (simp add: round_half_even_def Let_def floor_rat_numeral)

section \<open>Buffers: properties\<close>

lemma Buffer_init_nonneg:
  "0 \<le> c \<Longrightarrow> Buffer_init c = Inr \<lparr>data = replicate (nat c) 0\<rparr>"
  by (simp add: Buffer_init_def bytearray_def)

text \<open>
  Claim C8. For every byte sequence \<open>d\<close>, the buffer that \<^verbatim>\<open>Buffer.from_slice\<close>
  builds from \<open>d\<close> is returned without an exception, has length \<open>len(d)\<close> and holds
  exactly the bytes of \<open>d\<close>.
\<close>

theorem Buffer_from_slice_copies:
  "\<exists>buf. Buffer_from_slice d = Inr buf \<and> length (data buf) = length d \<and> data buf = d"
  by (simp add: Buffer_from_slice_def Buffer_init_nonneg slice_assign_def)



section \<open>The order of binary64 numbers\<close>

text \<open>On the values other than NaN the comparisons form a linear order.\<close>

lemma float_not_less_refl: "\<not> (v::float64) < v"
  by (cases v) auto

lemma float_le_not_less: "(u::float64) \<le> v \<Longrightarrow> \<not> v < u"
  by (cases u; cases v) auto

lemma float_le_antisym_less: "(u::float64) \<le> v \<Longrightarrow> \<not> u < v \<Longrightarrow> u = v"
  by (cases u; cases v) auto

lemma float_less_imp_le: "(u::float64) < v \<Longrightarrow> u \<le> v"
  by (cases u; cases v) auto




lemma float_less_le_trans: "(u::float64) < v \<Longrightarrow> v \<le> w \<Longrightarrow> u < w"
  by (cases u; cases v; cases w) auto

lemma float_le_less_trans: "(u::float64) \<le> v \<Longrightarrow> v < w \<Longrightarrow> u < w"
  by (cases u; cases v; cases w) auto



section \<open>Rectangles and quads: properties\<close>

lemma py_max2: "\<not> is_nan u \<Longrightarrow> \<not> is_nan v \<Longrightarrow> py_max u [v] = max u (v::float64)"
  by (cases u; cases v) (auto simp: py_max_def max_def is_nan_def)

lemma py_min2: "\<not> is_nan u \<Longrightarrow> \<not> is_nan v \<Longrightarrow> py_min u [v] = min u (v::float64)"
  by (cases u; cases v) (auto simp: py_min_def min_def is_nan_def)

lemma float_min_le: "\<not> is_nan u \<Longrightarrow> \<not> is_nan v \<Longrightarrow> min u v \<le> u \<and> min u (v::float64) \<le> v"
  by (cases u; cases v) (auto simp: min_def is_nan_def)

lemma float_max_ge: "\<not> is_nan u \<Longrightarrow> \<not> is_nan v \<Longrightarrow> u \<le> max u v \<and> v \<le> max u (v::float64)"
  by (cases u; cases v) (auto simp: max_def is_nan_def)

text \<open>
  Claim C4. For rectangles \<open>r1\<close>, \<open>r2\<close> whose coordinates are numbers (not NaN),
  \<^verbatim>\<open>r1.intersect(r2)\<close> is the rectangle with \<open>x0 = max(r1.x0, r2.x0)\<close>,
  \<open>y0 = max(r1.y0, r2.y0)\<close>, \<open>x1 = min(r1.x1, r2.x1)\<close>, \<open>y1 = min(r1.y1, r2.y1)\<close>;
  \<open>Rect_intersect\<close> is a total function with no error result, and when one
  rectangle lies wholly to the left of or below the other the result is inverted:
  \<open>x0 > x1\<close> or \<open>y0 > y1\<close>.
\<close>

theorem Rect_intersect_max_min:
  fixes r1 r2 :: "float64 Rect"
  assumes "\<not> Rect_has_nan r1" and "\<not> Rect_has_nan r2"
  shows "Rect_intersect r1 r2 =
           \<lparr>x0 = max (x0 r1) (x0 r2), y0 = max (y0 r1) (y0 r2),
            x1 = min (x1 r1) (x1 r2), y1 = min (y1 r1) (y1 r2)\<rparr>
         \<and> (x1 r1 < x0 r2 \<or> x1 r2 < x0 r1 \<or> y1 r1 < y0 r2 \<or> y1 r2 < y0 r1 \<longrightarrow>
              x1 (Rect_intersect r1 r2) < x0 (Rect_intersect r1 r2)
              \<or> y1 (Rect_intersect r1 r2) < y0 (Rect_intersect r1 r2))"
proof -
  have nn: "\<not> is_nan (x0 r1)" "\<not> is_nan (y0 r1)" "\<not> is_nan (x1 r1)" "\<not> is_nan (y1 r1)"
    "\<not> is_nan (x0 r2)" "\<not> is_nan (y0 r2)" "\<not> is_nan (x1 r2)" "\<not> is_nan (y1 r2)"
    using assms by (auto simp: Rect_has_nan_def)
  have eq: "Rect_intersect r1 r2 =
           \<lparr>x0 = max (x0 r1) (x0 r2), y0 = max (y0 r1) (y0 r2),
            x1 = min (x1 r1) (x1 r2), y1 = min (y1 r1) (y1 r2)\<rparr>"
    by (simp add: Rect_intersect_def py_max2 py_min2 nn)
  have inv: "x1 (Rect_intersect r1 r2) < x0 (Rect_intersect r1 r2)
              \<or> y1 (Rect_intersect r1 r2) < y0 (Rect_intersect r1 r2)"
    if d: "x1 r1 < x0 r2 \<or> x1 r2 < x0 r1 \<or> y1 r1 < y0 r2 \<or> y1 r2 < y0 r1"
  proof -
    note mx = float_min_le[OF nn(3) nn(7)] and my = float_min_le[OF nn(4) nn(8)]
      and Mx = float_max_ge[OF nn(1) nn(5)] and My = float_max_ge[OF nn(2) nn(6)]
    from d show ?thesis
    proof (elim disjE)
      assume "x1 r1 < x0 r2"
      then have "min (x1 r1) (x1 r2) < max (x0 r1) (x0 r2)"
        using mx Mx float_le_less_trans float_less_le_trans by blast
      then show ?thesis by (simp add: eq)
    next
      assume "x1 r2 < x0 r1"
      then have "min (x1 r1) (x1 r2) < max (x0 r1) (x0 r2)"
        using mx Mx float_le_less_trans float_less_le_trans by blast
      then show ?thesis by (simp add: eq)
    next
      assume "y1 r1 < y0 r2"
      then have "min (y1 r1) (y1 r2) < max (y0 r1) (y0 r2)"
        using my My float_le_less_trans float_less_le_trans by blast
      then show ?thesis by (simp add: eq)
    next
      assume "y1 r2 < y0 r1"
      then have "min (y1 r1) (y1 r2) < max (y0 r1) (y0 r2)"
        using my My float_le_less_trans float_less_le_trans by blast
      then show ?thesis by (simp add: eq)
    qed
  qed
  show ?thesis using eq inv by blast
qed

lemma py_min_normalized:
  "(u::float64) \<le> v \<Longrightarrow> py_min u [v, u, v] = u"
  by (simp add: py_min_def float_le_not_less float_not_less_refl)

lemma py_max_normalized:
  "(u::float64) \<le> v \<Longrightarrow> py_max u [v, u, v] = v"
  by (cases "u < v")
     (auto simp: py_max_def float_le_not_less float_not_less_refl float_less_imp_le
           dest: float_le_antisym_less)

lemma py_min_normalized2:
  "(u::float64) \<le> v \<Longrightarrow> py_min u [u, v, v] = u"
  by (simp add: py_min_def float_le_not_less float_not_less_refl)

lemma py_max_normalized2:
  "(u::float64) \<le> v \<Longrightarrow> py_max u [u, v, v] = v"
  by (cases "u < v")
     (auto simp: py_max_def float_le_not_less float_not_less_refl float_less_imp_le
           dest: float_le_antisym_less)

text \<open>
  Claim C7. For every normalized rectangle \<open>r\<close> (\<open>x0 \<le> x1\<close> and \<open>y0 \<le> y1\<close>),
  \<^verbatim>\<open>Quad.from_rect(r).to_rect()\<close> returns, without raising, a rectangle equal to
  \<open>r\<close> in every component.
\<close>

theorem Quad_round_trip:
  fixes r :: "float64 Rect"
  assumes "x0 r \<le> x1 r" and "y0 r \<le> y1 r"
  shows "Quad_to_rect (Quad_from_rect r) = Inr r"
  using assms
  by (simp add: Quad_to_rect_def Quad_from_rect_def bounds_of_def py_min_list_def
      py_max_list_def py_min_normalized py_max_normalized
      py_min_normalized2 py_max_normalized2)

theorem Rect_intersect_max_min_witness:
  "x1 \<lparr>x0 = Finite 0, y0 = Finite 0, x1 = Finite 10, y1 = Finite 10\<rparr>
     < x0 \<lparr>x0 = Finite 20, y0 = Finite 0, x1 = Finite 30, y1 = Finite 10\<rparr>
   \<and> Rect_intersect \<lparr>x0 = Finite 0, y0 = Finite 0, x1 = Finite 10, y1 = Finite 10\<rparr>
        \<lparr>x0 = Finite 20, y0 = Finite 0, x1 = Finite 30, y1 = Finite 10\<rparr>
     = \<lparr>x0 = Finite 20, y0 = Finite 0, x1 = Finite 10, y1 = Finite 10\<rparr>
   \<and> x1 (Rect_intersect \<lparr>x0 = Finite 0, y0 = Finite 0, x1 = Finite 10, y1 = Finite 10\<rparr>
        \<lparr>x0 = Finite 20, y0 = Finite 0, x1 = Finite 30, y1 = Finite 10\<rparr>)
     < x0 (Rect_intersect \<lparr>x0 = Finite 0, y0 = Finite 0, x1 = Finite 10, y1 = Finite 10\<rparr>
        \<lparr>x0 = Finite 20, y0 = Finite 0, x1 = Finite 30, y1 = Finite 10\<rparr>)"
  using Rect_intersect_max_min
    [of "\<lparr>x0 = Finite 0, y0 = Finite 0, x1 = Finite 10, y1 = Finite 10\<rparr>"
        "\<lparr>x0 = Finite 20, y0 = Finite 0, x1 = Finite 30, y1 = Finite 10\<rparr>"]
  by (simp add: Rect_has_nan_def is_nan_def max_def min_def)

theorem Quad_round_trip_witness:
  "Finite 0 \<le> Finite 100
   \<and> Quad_to_rect (Quad_from_rect \<lparr>x0 = Finite 0, y0 = Finite 0, x1 = Finite 100, y1 = Finite 100\<rparr>)
     = Inr \<lparr>x0 = Finite 0, y0 = Finite 0, x1 = Finite 100, y1 = Finite 100\<rparr>"
  using Quad_round_trip [of "\<lparr>x0 = Finite 0, y0 = Finite 0, x1 = Finite 100, y1 = Finite 100\<rparr>"]
  by simp






section \<open>The intersection of disjoint rectangles\<close>

text \<open>
  \<^verbatim>\<open>width()\<close> and \<^verbatim>\<open>height()\<close> take an absolute value, so on the intersection of
  the two disjoint rectangles of claim C5 they are positive.
\<close>

theorem disjoint_intersect_width_counterexample:
  "\<not> (Rect_width (Rect_intersect \<lparr>x0 = Finite 0, y0 = Finite 0, x1 = Finite 100, y1 = Finite 100\<rparr>
          \<lparr>x0 = Finite 200, y0 = Finite 200, x1 = Finite 300, y1 = Finite 300\<rparr>) \<le> 0)
   \<and> \<not> (Rect_height (Rect_intersect \<lparr>x0 = Finite 0, y0 = Finite 0, x1 = Finite 100, y1 = Finite 100\<rparr>
          \<lparr>x0 = Finite 200, y0 = Finite 200, x1 = Finite 300, y1 = Finite 300\<rparr>) \<le> 0)"
  by (simp add: Rect_width_def Rect_height_def Rect_intersect_def py_min_def py_max_def float64_eval)

text \<open>
  Claim C5, as the code has it. \<^verbatim>\<open>Rect(0,0,100,100).intersect(Rect(200,200,300,300))\<close>
  is \<^verbatim>\<open>Rect(200,200,100,100)\<close>, an inverted rectangle: \<open>x1 < x0\<close> and \<open>y1 < y0\<close>,
  the signed extents \<open>x1 - x0\<close> and \<open>y1 - y0\<close> are \<open>-100\<close>, which is non-positive,
  while \<^verbatim>\<open>width()\<close> and \<^verbatim>\<open>height()\<close> return the absolute value \<open>100\<close>.
\<close>

theorem disjoint_intersect_inverted:
  "Rect_intersect \<lparr>x0 = Finite 0, y0 = Finite 0, x1 = Finite 100, y1 = Finite 100\<rparr>
          \<lparr>x0 = Finite 200, y0 = Finite 200, x1 = Finite 300, y1 = Finite 300\<rparr>
     = \<lparr>x0 = Finite 200, y0 = Finite 200, x1 = Finite 100, y1 = Finite 100\<rparr>
   \<and> Finite 100 < Finite 200
   \<and> Finite 100 - Finite 200 = Finite (- 100)
   \<and> Finite (- 100) \<le> (0 :: float64)
   \<and> Rect_width \<lparr>x0 = Finite 200, y0 = Finite 200, x1 = Finite 100, y1 = Finite 100\<rparr> = Finite 100
   \<and> Rect_height \<lparr>x0 = Finite 200, y0 = Finite 200, x1 = Finite 100, y1 = Finite 100\<rparr> = Finite 100"
  by (simp add: Rect_width_def Rect_height_def Rect_intersect_def py_min_def py_max_def float64_eval)

section \<open>Matrix inversion\<close>

lemma float_zero_less_lit: "\<bar>0 :: float64\<bar> < lit_1e_14"
  by (simp add: lit_1e_14_float64 zero_float64_def)

text \<open>
  Claim C2. \<^verbatim>\<open>m.invert()\<close> computes \<open>det = a*d - b*c\<close> and returns \<^verbatim>\<open>None\<close> exactly
  when \<open>|det| < 1e-14\<close>, a fixed threshold; when \<open>|det| \<ge> 1e-14\<close> it returns the
  matrix of the analytic inverse formula; it never raises (the division
  \<^verbatim>\<open>1.0 / det\<close> is reached only with a nonzero \<open>det\<close>).
\<close>

theorem Matrix_invert_threshold:
  fixes m :: "float64 Matrix"
  shows "Matrix_det m = ma m * md m - mb m * mc m
     \<and> (Matrix_invert m = Inr None \<longleftrightarrow> \<bar>Matrix_det m\<bar> < lit_1e_14)
     \<and> (lit_1e_14 \<le> \<bar>Matrix_det m\<bar> \<longrightarrow>
          Matrix_invert m = Inr (Some
            \<lparr>ma = md m * (1 / Matrix_det m),
             mb = - mb m * (1 / Matrix_det m),
             mc = - mc m * (1 / Matrix_det m),
             md = ma m * (1 / Matrix_det m),
             me = (mc m * mf m - md m * me m) * (1 / Matrix_det m),
             mf = (mb m * me m - ma m * mf m) * (1 / Matrix_det m)\<rparr>))
     \<and> (\<forall>err. Matrix_invert m \<noteq> Inl err)"
proof (cases "\<bar>Matrix_det m\<bar> < lit_1e_14")
  case True
  then have "\<not> lit_1e_14 \<le> \<bar>Matrix_det m\<bar>"
    using float_le_not_less[of lit_1e_14 "\<bar>Matrix_det m\<bar>"] by blast
  with True show ?thesis by (simp add: Matrix_invert_def Matrix_det_def)
next
  case False
  then have nz: "Matrix_det m \<noteq> 0" using float_zero_less_lit by auto
  with False show ?thesis
    by (simp add: Matrix_invert_def Let_def py_truediv_def Matrix_det_def)
qed

lemma round64_quarter: "round64 (1 / 4) = Finite (1 / 4)"
  using round64_representable[of 1 "- 2"] by (simp add: power_int_minus)

lemma round64_half: "round64 (1 / 2) = Finite (1 / 2)"
  using round64_representable[of 1 "- 1"] by (simp add: power_int_minus)

theorem Matrix_invert_threshold_witness:
  "lit_1e_14 \<le> \<bar>Matrix_det (Matrix_scale (Finite 2) (Finite 2))\<bar>
   \<and> Matrix_invert (Matrix_scale (Finite 2) (Finite 2))
       = Inr (Some (Matrix_scale (Finite (1 / 2)) (Finite (1 / 2))))"
  using Matrix_invert_threshold [of "Matrix_scale (Finite 2) (Finite 2)"]
  by (simp add: Matrix_scale_def Matrix_det_def lit_1e_14_float64 float64_eval
      round64_quarter round64_half)

section \<open>Composition of transforms\<close>






section \<open>A matrix times its inverse\<close>












text \<open>
  A second way to leave the tolerance is overflow: for \<^verbatim>\<open>Matrix.scale(2**600, 2**600)\<close>
  the determinant is \<open>inf\<close>, \<^verbatim>\<open>1.0 / det\<close> is \<open>0\<close>, the returned inverse is the zero
  matrix and so is the product.
\<close>

lemma invert_of_overflowing_scale:
  fixes b :: float64
  assumes bb: "b * b = PosInf" and b0: "b * Finite 0 = Finite 0"
  shows "Matrix_det (Matrix_scale b b) = PosInf"
    and "Matrix_invert (Matrix_scale b b)
      = Inr (Some \<lparr>ma = Finite 0, mb = Finite 0, mc = Finite 0, md = Finite 0,
                   me = Finite 0, mf = Finite 0\<rparr>)"
    and "Matrix_concat (Matrix_scale b b)
        \<lparr>ma = Finite 0, mb = Finite 0, mc = Finite 0, md = Finite 0, me = Finite 0, mf = Finite 0\<rparr>
      = \<lparr>ma = Finite 0, mb = Finite 0, mc = Finite 0, md = Finite 0, me = Finite 0, mf = Finite 0\<rparr>"
proof -
  show det: "Matrix_det (Matrix_scale b b) = PosInf"
    by (simp add: Matrix_det_def Matrix_scale_def bb float64_eval)
  show "Matrix_invert (Matrix_scale b b)
      = Inr (Some \<lparr>ma = Finite 0, mb = Finite 0, mc = Finite 0, md = Finite 0,
                   me = Finite 0, mf = Finite 0\<rparr>)"
    unfolding Matrix_invert_def Let_def det
    by (simp add: lit_1e_14_float64 py_truediv_def Matrix_scale_def b0 float64_eval)
  show "Matrix_concat (Matrix_scale b b)
        \<lparr>ma = Finite 0, mb = Finite 0, mc = Finite 0, md = Finite 0, me = Finite 0, mf = Finite 0\<rparr>
      = \<lparr>ma = Finite 0, mb = Finite 0, mc = Finite 0, md = Finite 0, me = Finite 0, mf = Finite 0\<rparr>"
    by (simp add: Matrix_concat_def Matrix_scale_def b0 float64_eval)
qed

lemma big_times_big: "Finite (2 ^ 600) * Finite (2 ^ 600) = PosInf"
  by (simp only: times_float64.simps round64_big)

lemma big_times_zero: "Finite (2 ^ 600) * Finite 0 = Finite 0"
  by (simp only: times_float64.simps mult_zero_right round64_zero)

lemma invert_concat_overflow:
  "Matrix_invert (Matrix_scale (Finite (2 ^ 600)) (Finite (2 ^ 600)))
       = Inr (Some \<lparr>ma = Finite 0, mb = Finite 0, mc = Finite 0, md = Finite 0,
                    me = Finite 0, mf = Finite 0\<rparr>)
   \<and> ma (Matrix_concat (Matrix_scale (Finite (2 ^ 600)) (Finite (2 ^ 600)))
          \<lparr>ma = Finite 0, mb = Finite 0, mc = Finite 0, md = Finite 0,
           me = Finite 0, mf = Finite 0\<rparr>) = Finite 0"
  unfolding invert_of_overflowing_scale[OF big_times_big big_times_zero] by simp




section \<open>Argument validation of the merge\<close>

text \<open>
  Claim C9. When the list of input paths is empty or the output path is the empty
  string, \<^verbatim>\<open>merge_pdfs\<close> fails with \<open>InvalidArgument\<close> and the native state is
  unchanged: no context or document was allocated and nothing was opened or written.
\<close>

theorem merge_pdfs_invalid_argument:
  assumes "input_paths = [] \<or> output_path = []"
  shows "merge_pdfs input_paths output_path ctx s = (Inl InvalidArgument, s)"
  using assms by (auto simp: merge_pdfs_def)

theorem merge_pdfs_invalid_argument_witness:
  "merge_pdfs [] ''output.pdf'' None
      \<lparr>live_contexts = 0, live_documents = 0, files = Map.empty, writable = (\<lambda>_. True), io_trace = []\<rparr>
     = (Inl InvalidArgument,
        \<lparr>live_contexts = 0, live_documents = 0, files = Map.empty, writable = (\<lambda>_. True), io_trace = []\<rparr>)
   \<and> merge_pdfs [''doc1.pdf''] [] None
      \<lparr>live_contexts = 0, live_documents = 0, files = Map.empty, writable = (\<lambda>_. True), io_trace = []\<rparr>
     = (Inl InvalidArgument,
        \<lparr>live_contexts = 0, live_documents = 0, files = Map.empty, writable = (\<lambda>_. True), io_trace = []\<rparr>)"
  using merge_pdfs_invalid_argument [of "[]" "''output.pdf''" None
      "\<lparr>live_contexts = 0, live_documents = 0, files = Map.empty, writable = (\<lambda>_. True), io_trace = []\<rparr>"]
    merge_pdfs_invalid_argument [of "[''doc1.pdf'']" "[]" None
      "\<lparr>live_contexts = 0, live_documents = 0, files = Map.empty, writable = (\<lambda>_. True), io_trace = []\<rparr>"]
  by simp

end
